theory Spec2Isabelle
  imports Complex_Main "HOL-Library.Word"
begin

section \<open>Python strings and bytes\<close>

text \<open>
  A Python \<open>str\<close> is a \<open>string\<close> (a list of characters, \<open>len\<close> is \<open>length\<close>);
  a \<open>bytes\<close> value is a list of 8-bit words. Case conversion is the ASCII one: the
  program only compares the converted text with ASCII literals (\<open>JPEG\<close>, \<open>PNG\<close>,
  \<open>.pdf\<close>).
\<close>

type_synonym byte = "8 word"
type_synonym bytes = "byte list"
type_synonym path = string

definition upper_char :: "char \<Rightarrow> char" where
  "upper_char c =
     (let n = (of_char c :: nat) in if 97 \<le> n \<and> n \<le> 122 then char_of (n - 32) else c)"

definition lower_char :: "char \<Rightarrow> char" where
  "lower_char c =
     (let n = (of_char c :: nat) in if 65 \<le> n \<and> n \<le> 90 then char_of (n + 32) else c)"

definition upper :: "string \<Rightarrow> string" where
  "upper s = map upper_char s"

definition lower :: "string \<Rightarrow> string" where
  "lower s = map lower_char s"

definition startswith :: "'a list \<Rightarrow> 'a list \<Rightarrow> bool" where
  "startswith s p = (take (length p) s = p)"

definition endswith :: "'a list \<Rightarrow> 'a list \<Rightarrow> bool" where
  "endswith s p = (length p \<le> length s \<and> drop (length s - length p) s = p)"

text \<open>\<open>s.replace(c, r)\<close> for a single character \<open>c\<close>.\<close>

definition replace_char :: "char \<Rightarrow> char \<Rightarrow> string \<Rightarrow> string" where
  "replace_char c r s = map (\<lambda>x. if x = c then r else x) s"

text \<open>\<open>s.strip(cs)\<close>: drop the characters of \<open>cs\<close> from both ends.\<close>

definition strip :: "string \<Rightarrow> string \<Rightarrow> string" where
  "strip cs s = rev (dropWhile (\<lambda>c. c \<in> set cs) (rev (dropWhile (\<lambda>c. c \<in> set cs) s)))"

text \<open>\<open>str(n)\<close> for an integer, and the format specification \<open>{n:04d}\<close>.\<close>

definition digit :: "nat \<Rightarrow> char" where
  "digit d = char_of (48 + d)"

fun str_nat :: "nat \<Rightarrow> string" where
  "str_nat n = (if n < 10 then [digit n] else str_nat (n div 10) @ [digit (n mod 10)])"

declare str_nat.simps [simp del]

definition str_int :: "int \<Rightarrow> string" where
  "str_int i = (if i < 0 then CHR ''-'' # str_nat (nat (- i)) else str_nat (nat i))"

definition fmt_04d :: "nat \<Rightarrow> string" where
  "fmt_04d n = (let s = str_nat n in replicate (4 - length s) CHR ''0'' @ s)"

section \<open>utils.py: sanitize\_filename\<close>

definition invalid_chars :: string where
  "invalid_chars =
     [CHR ''<'', CHR ''>'', CHR '':'', CHR 0x22, CHR ''/'', CHR 0x5C, CHR ''|'', CHR ''?'', CHR ''*'']"

definition sanitize_filename :: "string \<Rightarrow> string" where
  "sanitize_filename filename =
     (let sanitized = fold (\<lambda>c s. replace_char c CHR ''_'' s) invalid_chars filename;
          sanitized = strip '' .'' sanitized;
          sanitized = (if sanitized = [] then ''converted_pdf'' else sanitized);
          sanitized = (if length sanitized > 200 then take 200 sanitized else sanitized)
      in sanitized)"

section \<open>Errors\<close>

text \<open>
  The exceptions the program raises, by class, with the message. An exception raised
  inside a library is known to the program only through \<open>str(e)\<close>, so a library call
  that can fail returns \<open>string + 'a\<close>, the string being that text.
\<close>

datatype error = ValueError string | RuntimeError string | OSError string

section \<open>pdf\_to\_image\_converter.py: the settings\<close>

record converter =
  dpi :: int
  image_format :: string
  jpeg_quality :: int
  verbose :: bool

text \<open>\<open>PDFToImageConverter.__init__\<close>: the fields are set, then checked in this order.\<close>

definition init :: "int \<Rightarrow> string \<Rightarrow> int \<Rightarrow> bool \<Rightarrow> error + converter" where
  "init d fmt q v =
     (let self = \<lparr> dpi = d, image_format = upper fmt, jpeg_quality = q, verbose = v \<rparr> in
      if dpi self \<notin> set [72, 150, 300] then Inl (ValueError ''DPI must be 72, 150, or 300'')
      else if image_format self \<notin> set [''JPEG'', ''PNG''] then
        Inl (ValueError ''Image format must be JPEG or PNG'')
      else if \<not> (1 \<le> jpeg_quality self \<and> jpeg_quality self \<le> 100) then
        Inl (ValueError ''JPEG quality must be between 1 and 100'')
      else Inr self)"

section \<open>The environment: libraries, file system, console\<close>

text \<open>
  What PyMuPDF, Pillow, reportlab, \<open>mimetypes\<close>, \<open>pathlib\<close> and \<open>tempfile\<close> compute is
  not part of the program; the program's control flow only depends on whether a call
  raises and on a few attributes of what it returns. These calls are the fields of a
  record \<open>lib\<close>, left arbitrary in every theorem.
\<close>

record page =
  rect_width :: real
  rect_height :: real
  contents :: bytes

record document =
  is_encrypted :: bool
  pages :: "page list"

record pil_image =
  mode :: string
  pixels :: bytes

text \<open>One page of a reportlab canvas: its size, the image drawn and where (x, y, width, height).\<close>

record canvas_page =
  page_size :: "real \<times> real"
  drawn :: bytes
  drawn_at :: "real \<times> real \<times> real \<times> real"

record lib =
  guess_type :: "path \<Rightarrow> string option"
  path_stem :: "path \<Rightarrow> string"
  path_sibling :: "path \<Rightarrow> string \<Rightarrow> path"
  fitz_open :: "path \<Rightarrow> bytes option \<Rightarrow> string + document"
  get_pixmap :: "page \<Rightarrow> real \<Rightarrow> string + bytes"
  pil_open :: "bytes \<Rightarrow> string + pil_image"
  pil_flatten :: "pil_image \<Rightarrow> string + pil_image"
  pil_save :: "pil_image \<Rightarrow> string \<Rightarrow> int option \<Rightarrow> string + bytes"
  canvas_bytes :: "canvas_page list \<Rightarrow> bytes"
  mkdtemp :: path

text \<open>
  \<open>guess_type L p\<close> is the first component of \<open>mimetypes.guess_type(p)\<close>;
  \<open>path_stem L p\<close> is \<open>Path(p).stem\<close> and \<open>path_sibling L p name\<close> is
  \<open>str(Path(p).parent / name)\<close>; \<open>fitz_open L p data\<close> is \<open>fitz.open(p)\<close> when the file
  at \<open>p\<close> holds \<open>data\<close> (\<open>None\<close>: no such file); \<open>get_pixmap L page s\<close> is
  \<open>page.get_pixmap(matrix=fitz.Matrix(s, s), alpha=False)\<close>, returned as the PPM data
  that \<open>pixmap.save\<close> writes; \<open>pil_flatten\<close> is the composition on a white RGB
  background of lines 120 to 124; \<open>canvas_bytes L ps\<close> is the PDF file reportlab saves
  for a canvas whose pages, each closed by \<open>showPage\<close>, are \<open>ps\<close>; \<open>mkdtemp L\<close> is the
  name of the directory \<open>tempfile.TemporaryDirectory()\<close> makes.
\<close>

text \<open>
  A line printed by \<open>print\<close>, with the values it formats (sizes are the byte counts
  given to \<open>format_file_size\<close>). The messages of \<open>self.log\<close>, printed in verbose mode
  only, are left out.
\<close>

datatype line =
    Starting_batch nat
  | Processing nat nat string
  | Conversion_completed path nat path nat nat
  | ERROR_failed path error
  | Batch_completed nat nat nat

text \<open>
  The state the program acts on. \<open>files\<close> is the file system: a path names a regular
  file, given by its content, or nothing (directories, links and permissions are not
  modelled, so \<open>os.path.isfile\<close> agrees with \<open>os.path.exists\<close>, \<open>os.remove\<close> of an
  existing path succeeds, and \<open>os.makedirs\<close> changes nothing). \<open>scratch\<close> holds the files
  of the temporary directory of the running conversion, by full path: the directory is
  new and private to the conversion, so its files are kept apart from \<open>files\<close>.
  \<open>opened\<close> and \<open>closed\<close> count the documents \<open>fitz.open\<close> returned and the calls of
  \<open>pdf_document.close()\<close>; \<open>rendered\<close> lists the calls of \<open>get_pixmap\<close>, each with
  the page index and the scale; \<open>stdout\<close> lists the lines printed.
\<close>

record world =
  files :: "path \<rightharpoonup> bytes"
  scratch :: "path \<rightharpoonup> bytes"
  opened :: nat
  closed :: nat
  rendered :: "(nat \<times> real) list"
  stdout :: "line list"

type_synonym 'a result = "(error + 'a) \<times> world"

definition os_path_exists :: "world \<Rightarrow> path \<Rightarrow> bool" where
  "os_path_exists w p = (files w p \<noteq> None)"

definition os_path_isfile :: "world \<Rightarrow> path \<Rightarrow> bool" where
  "os_path_isfile w p = (files w p \<noteq> None)"

definition os_path_getsize :: "world \<Rightarrow> path \<Rightarrow> error + nat" where
  "os_path_getsize w p =
     (case files w p of None \<Rightarrow> Inl (OSError p) | Some data \<Rightarrow> Inr (length data))"

definition os_remove :: "path \<Rightarrow> world \<Rightarrow> world" where
  "os_remove p w = w\<lparr>files := (files w)(p := None)\<rparr>"

definition print :: "line \<Rightarrow> world \<Rightarrow> world" where
  "print l w = w\<lparr>stdout := stdout w @ [l]\<rparr>"

text \<open>\<open>os.path.join\<close>, \<open>os.path.basename\<close> and \<open>os.path.splitext\<close> of \<open>posixpath\<close>.\<close>

definition os_path_join :: "path \<Rightarrow> path \<Rightarrow> path" where
  "os_path_join a b =
     (if startswith b ''/'' then b
      else if a = [] \<or> endswith a ''/'' then a @ b
      else a @ ''/'' @ b)"



section \<open>utils.py: validate\_pdf and get\_output\_filename\<close>

definition pdf_magic :: bytes where
  "pdf_magic = [0x25, 0x50, 0x44, 0x46, 0x2D]"

text \<open>
  \<open>validate_pdf\<close>. Opening and reading an existing file, and asking for its size, do not
  fail in this file system, so the two \<open>except\<close> branches are the \<open>None\<close> cases.
\<close>

definition validate_pdf :: "lib \<Rightarrow> world \<Rightarrow> path \<Rightarrow> bool" where
  "validate_pdf L w file_path =
     (if \<not> os_path_exists w file_path then False
      else if \<not> os_path_isfile w file_path then False
      else if \<not> endswith (lower file_path) ''.pdf'' then False
      else if guess_type L file_path \<noteq> Some ''application/pdf'' \<and>
              (case files w file_path of
                 None \<Rightarrow> True
               | Some data \<Rightarrow> \<not> startswith (take 5 data) pdf_magic) then False
      else (case os_path_getsize w file_path of
              Inl e \<Rightarrow> False
            | Inr file_size \<Rightarrow> if file_size < 100 then False else True))"

text \<open>
  The \<open>while\<close> loop of \<open>get_output_filename\<close>, entered with the current \<open>output_path\<close>
  and \<open>counter\<close>; it returns the \<open>output_path\<close> the loop ends with.
\<close>

function conflict_loop :: "lib \<Rightarrow> world \<Rightarrow> path \<Rightarrow> string \<Rightarrow> string \<Rightarrow> path \<Rightarrow> nat \<Rightarrow> path" where
  "conflict_loop L w input_path base_name suffix output_path counter =
     (if os_path_exists w output_path then
        (let name_with_counter = base_name @ suffix @ ''_'' @ str_nat counter @ ''.pdf'';
             output_path = path_sibling L input_path name_with_counter;
             counter = counter + 1
         in if counter > 1000 then output_path
            else conflict_loop L w input_path base_name suffix output_path counter)
      else output_path)"
  by pat_completeness auto
termination
  by (relation "measure (\<lambda>(L, w, input_path, base_name, suffix, output_path, counter). 1001 - counter)")
     auto

declare conflict_loop.simps [simp del]

definition get_output_filename :: "lib \<Rightarrow> world \<Rightarrow> path \<Rightarrow> string \<Rightarrow> int \<Rightarrow> path" where
  "get_output_filename L w input_path fmt d =
     (let base_name = path_stem L input_path;
          suffix = ''_image_'' @ str_int d @ ''dpi'';
          output_name = base_name @ suffix @ ''.pdf'';
          output_path = path_sibling L input_path output_name
      in conflict_loop L w input_path base_name suffix output_path 1)"

section \<open>pdf\_to\_image\_converter.py: the rasterizer\<close>

type_synonym image_item = "path \<times> (real \<times> real)"

text \<open>
  Lines 117 to 128: the image is saved as JPEG, after it is put on a white background
  when it has an alpha channel or a palette, or as PNG. The result is the data of the
  file written, or the message of the exception.
\<close>

definition save_image :: "lib \<Rightarrow> converter \<Rightarrow> pil_image \<Rightarrow> string + bytes" where
  "save_image L self pil_img =
     (if image_format self = ''JPEG'' then
        (case (if mode pil_img \<in> set [''RGBA'', ''LA'', ''P'']
               then pil_flatten L pil_img else Inr pil_img) of
           Inl e \<Rightarrow> Inl e
         | Inr rgb_image \<Rightarrow> pil_save L rgb_image ''JPEG'' (Some (jpeg_quality self)))
      else pil_save L pil_img ''PNG'' None)"

text \<open>
  The body of the \<open>try\<close> of the page loop, for the page at index \<open>page_num\<close>: the
  message of the exception raised, or the tuple appended to \<open>image_paths\<close>.
\<close>

definition process_page ::
  "lib \<Rightarrow> converter \<Rightarrow> path \<Rightarrow> page \<Rightarrow> nat \<Rightarrow> world \<Rightarrow> (string + image_item) \<times> world" where
  "process_page L self temp_dir pg page_num w =
     (let mat = real_of_int (dpi self) / 72;
          w = w\<lparr>rendered := rendered w @ [(page_num, mat)]\<rparr> in
      case get_pixmap L pg mat of
        Inl e \<Rightarrow> (Inl e, w)
      | Inr pixmap \<Rightarrow>
         (let temp_pixmap_path = os_path_join temp_dir (''temp_page_'' @ str_nat page_num @ ''.ppm'');
              w = w\<lparr>scratch := (scratch w)(temp_pixmap_path \<mapsto> pixmap)\<rparr> in
          case (case scratch w temp_pixmap_path of
                  None \<Rightarrow> Inl temp_pixmap_path
                | Some ppm \<Rightarrow> pil_open L ppm) of
            Inl e \<Rightarrow> (Inl e, w)
          | Inr pil_img \<Rightarrow>
             (let w = w\<lparr>scratch := (scratch w)(temp_pixmap_path := None)\<rparr>;
                  original_width = rect_width pg;
                  original_height = rect_height pg;
                  image_filename = ''page_'' @ fmt_04d page_num @ ''.'' @ lower (image_format self);
                  image_path = os_path_join temp_dir image_filename;
                  saved = save_image L self pil_img in
              case saved of
                Inl e \<Rightarrow> (Inl e, w)
              | Inr data \<Rightarrow>
                  (Inr (image_path, (original_width, original_height)),
                   w\<lparr>scratch := (scratch w)(image_path \<mapsto> data)\<rparr>))))"

text \<open>
  The loop \<open>for page_num in range(page_count)\<close>, entered at \<open>page_num\<close> with the pages
  from there on and the \<open>image_paths\<close> collected so far.
\<close>

fun page_loop ::
  "lib \<Rightarrow> converter \<Rightarrow> path \<Rightarrow> page list \<Rightarrow> nat \<Rightarrow> image_item list \<Rightarrow> world
   \<Rightarrow> image_item list result" where
  "page_loop L self temp_dir [] page_num image_paths w = (Inr image_paths, w)"
| "page_loop L self temp_dir (pg # rest) page_num image_paths w =
     (case process_page L self temp_dir pg page_num w of
        (Inl e, w') \<Rightarrow>
          (Inl (RuntimeError (''Failed to process page '' @ str_nat (page_num + 1) @ '': '' @ e)), w')
      | (Inr item, w') \<Rightarrow>
          page_loop L self temp_dir rest (page_num + 1) (image_paths @ [item]) w')"

definition convert_pdf_to_images ::
  "lib \<Rightarrow> converter \<Rightarrow> path \<Rightarrow> path \<Rightarrow> world \<Rightarrow> image_item list result" where
  "convert_pdf_to_images L self pdf_path temp_dir w =
     (case fitz_open L pdf_path (files w pdf_path) of
        Inl e \<Rightarrow> (Inl (RuntimeError (''Failed to open PDF: '' @ e)), w)
      | Inr pdf_document \<Rightarrow>
         (let w = w\<lparr>opened := opened w + 1\<rparr> in
          if is_encrypted pdf_document then
            (Inl (RuntimeError ''PDF is password protected''), w)
          else
            (case page_loop L self temp_dir (pages pdf_document) 0 [] w of
               (Inl e, w') \<Rightarrow> (Inl e, w')
             | (Inr image_paths, w') \<Rightarrow> (Inr image_paths, w'\<lparr>closed := closed w' + 1\<rparr>))))"

section \<open>pdf\_to\_image\_converter.py: the reassembler\<close>

text \<open>
  The loop of \<open>create_pdf_from_images\<close> over \<open>image_paths\<close>, with the pages of the canvas
  so far. \<open>ImageReader(image_path)\<close> opens the file, which is in the temporary directory.
\<close>

fun draw_loop :: "world \<Rightarrow> image_item list \<Rightarrow> canvas_page list \<Rightarrow> string + canvas_page list" where
  "draw_loop w [] c = Inr c"
| "draw_loop w ((image_path, (width, height)) # rest) c =
     (case scratch w image_path of
        None \<Rightarrow> Inl (''Cannot open resource '' @ image_path)
      | Some img_reader \<Rightarrow>
          draw_loop w rest
            (c @ [\<lparr> page_size = (width, height), drawn = img_reader,
                    drawn_at = (0, 0, width, height) \<rparr>]))"

definition create_pdf_from_images ::
  "lib \<Rightarrow> converter \<Rightarrow> image_item list \<Rightarrow> path \<Rightarrow> world \<Rightarrow> unit result" where
  "create_pdf_from_images L self image_paths output_path w =
     (case draw_loop w image_paths [] of
        Inl e \<Rightarrow> (Inl (RuntimeError (''Failed to create output PDF: '' @ e)), w)
      | Inr c \<Rightarrow> (Inr (), w\<lparr>files := (files w)(output_path \<mapsto> canvas_bytes L c)\<rparr>))"

section \<open>pdf\_to\_image\_converter.py: the orchestrator\<close>

text \<open>The \<open>try\<close> block of \<open>convert_single_pdf\<close>, inside the temporary directory.\<close>

definition convert_body ::
  "lib \<Rightarrow> converter \<Rightarrow> path \<Rightarrow> path \<Rightarrow> path \<Rightarrow> world \<Rightarrow> path result" where
  "convert_body L self input_path output_path temp_dir w =
     (case convert_pdf_to_images L self input_path temp_dir w of
        (Inl e, w) \<Rightarrow> (Inl e, w)
      | (Inr image_paths, w) \<Rightarrow>
         (case create_pdf_from_images L self image_paths output_path w of
            (Inl e, w) \<Rightarrow> (Inl e, w)
          | (Inr u, w) \<Rightarrow>
             (case os_path_getsize w input_path of
                Inl e \<Rightarrow> (Inl e, w)
              | Inr input_size \<Rightarrow>
                 (case os_path_getsize w output_path of
                    Inl e \<Rightarrow> (Inl e, w)
                  | Inr output_size \<Rightarrow>
                     (Inr output_path,
                      print (Conversion_completed input_path input_size output_path output_size
                               (length image_paths)) w)))))"

text \<open>
  \<open>convert_single_pdf\<close>. The \<open>with\<close> block makes an empty temporary directory and
  removes it with all its files when the block is left, also by an exception.
\<close>

definition convert_single_pdf ::
  "lib \<Rightarrow> converter \<Rightarrow> path \<Rightarrow> path option \<Rightarrow> world \<Rightarrow> path result" where
  "convert_single_pdf L self input_path output_path w =
     (if \<not> validate_pdf L w input_path then
        (Inl (ValueError (''Invalid PDF file: '' @ input_path)), w)
      else
        (let output_path =
               (case output_path of
                  None \<Rightarrow> get_output_filename L w input_path (lower (image_format self)) (dpi self)
                | Some p \<Rightarrow> p);
             temp_dir = mkdtemp L;
             w = w\<lparr>scratch := Map.empty\<rparr>;
             (r, w) =
               (case convert_body L self input_path output_path temp_dir w of
                  (Inl e, w) \<Rightarrow>
                    (Inl e, if os_path_exists w output_path then os_remove output_path w else w)
                | (Inr p, w) \<Rightarrow> (Inr p, w))
         in (r, w\<lparr>scratch := Map.empty\<rparr>)))"



section \<open>Auxiliary definitions for the statements\<close>

text \<open>The three errors \<open>__init__\<close> raises.\<close>

definition configuration_errors :: "error list" where
  "configuration_errors =
     [ValueError ''DPI must be 72, 150, or 300'',
      ValueError ''Image format must be JPEG or PNG'',
      ValueError ''JPEG quality must be between 1 and 100'']"

text \<open>
  The output path \<open>convert_single_pdf\<close> works with: the one supplied, or the derived one.
\<close>

definition chosen_output_path :: "lib \<Rightarrow> converter \<Rightarrow> world \<Rightarrow> path \<Rightarrow> path option \<Rightarrow> path" where
  "chosen_output_path L self w input_path output_path =
     (case output_path of
        None \<Rightarrow> get_output_filename L w input_path (lower (image_format self)) (dpi self)
      | Some p \<Rightarrow> p)"

section \<open>A concrete environment for the witnesses\<close>

text \<open>
  A library that reads a document off the bytes after the header: byte 5 says whether it
  is encrypted, bytes 6 and 7 are the contents of two US Letter pages; a page whose
  content is \<open>0xFF\<close> does not render. Files are named by the path as it is
  (\<open>Path(p).stem\<close> drops a final \<open>.pdf\<close>, and the parent is the current directory).
\<close>

definition demo_lib :: lib where
  "demo_lib =
     \<lparr> guess_type = (\<lambda>p. None),
       path_stem = (\<lambda>p. if endswith p ''.pdf'' then take (length p - 4) p else p),
       path_sibling = (\<lambda>p name. name),
       fitz_open = (\<lambda>p d. case d of
           None \<Rightarrow> Inl ''no such file''
         | Some b \<Rightarrow>
             if \<not> startswith b pdf_magic then Inl ''no objects found''
             else Inr \<lparr> is_encrypted = (take 1 (drop 5 b) = [1]),
                        pages = map (\<lambda>c. \<lparr> rect_width = 612, rect_height = 792, contents = [c] \<rparr>)
                                  (take 2 (drop 6 b)) \<rparr>),
       get_pixmap = (\<lambda>pg s. if contents pg = [0xFF] then Inl ''cannot render'' else Inr (contents pg)),
       pil_open = (\<lambda>b. Inr \<lparr> mode = ''RGB'', pixels = b \<rparr>),
       pil_flatten = (\<lambda>i. Inr i),
       pil_save = (\<lambda>i f q. Inr (pixels i)),
       canvas_bytes = (\<lambda>ps. pdf_magic @ concat (map drawn ps)),
       mkdtemp = ''/tmp/tmpdir'' \<rparr>"

definition good_pdf :: bytes where
  "good_pdf = pdf_magic @ [0, 1, 2] @ replicate 92 0"

definition bad_pdf :: bytes where
  "bad_pdf = pdf_magic @ [0, 1, 0xFF] @ replicate 92 0"

definition encrypted_pdf :: bytes where
  "encrypted_pdf = pdf_magic @ [1, 1, 2] @ replicate 92 0"

definition text_file :: bytes where
  "text_file = replicate 120 0x41"

definition demo_world :: world where
  "demo_world =
     \<lparr> files = [''good.pdf'' \<mapsto> good_pdf, ''bad.pdf'' \<mapsto> bad_pdf,
                 ''locked.pdf'' \<mapsto> encrypted_pdf, ''empty.pdf'' \<mapsto> [],
                 ''notes.pdf'' \<mapsto> text_file, ''report.pdf'' \<mapsto> text_file,
                 ''bad_image_150dpi.pdf'' \<mapsto> text_file],
       scratch = Map.empty, opened = 0, closed = 0, rendered = [], stdout = [] \<rparr>"

definition demo_converter :: converter where
  "demo_converter = \<lparr> dpi = 150, image_format = ''JPEG'', jpeg_quality = 85, verbose = False \<rparr>"

text \<open>
  The names \<open>get_output_filename\<close> tries for \<open>input_path\<close> and \<open>dpi\<close>: number 0 is
  \<open>{stem}_image_{dpi}dpi.pdf\<close>, number \<open>k > 0\<close> is \<open>{stem}_image_{dpi}dpi_{k}.pdf\<close>, both
  in the directory of \<open>input_path\<close>.
\<close>

definition numbered :: "lib \<Rightarrow> path \<Rightarrow> string \<Rightarrow> string \<Rightarrow> nat \<Rightarrow> path" where
  "numbered L input_path base_name suffix k =
     path_sibling L input_path
       (base_name @ suffix @ (if k = 0 then [] else ''_'' @ str_nat k) @ ''.pdf'')"

definition candidate :: "lib \<Rightarrow> path \<Rightarrow> int \<Rightarrow> nat \<Rightarrow> path" where
  "candidate L input_path d k =
     numbered L input_path (path_stem L input_path) (''_image_'' @ str_int d @ ''dpi'') k"

text \<open>A file system in which every path names a file.\<close>

definition full_world :: world where
  "full_world =
     \<lparr> files = (\<lambda>p. Some good_pdf), scratch = Map.empty, opened = 0, closed = 0,
       rendered = [], stdout = [] \<rparr>"





text \<open>
  For the statements about pages: the scale at which pages are rendered; the message of
  the exception the \<open>try\<close> body of the page loop raises for a page, if it raises (it is
  read off a run of that body; the outcome depends on the libraries, the settings and
  the page only, see \<open>process_page_outcome\<close>); the paths of the two files the body
  writes for page \<open>n\<close>; and the \<open>image_paths\<close> of the pages \<open>ps\<close>, the first of them
  having index \<open>n\<close>.
\<close>

definition render_scale :: "converter \<Rightarrow> real" where
  "render_scale self = real_of_int (dpi self) / 72"

definition blank_world :: world where
  "blank_world =
     \<lparr> files = Map.empty, scratch = Map.empty, opened = 0, closed = 0, rendered = [], stdout = [] \<rparr>"

definition page_error :: "lib \<Rightarrow> converter \<Rightarrow> page \<Rightarrow> string option" where
  "page_error L self pg =
     (case fst (process_page L self [] pg 0 blank_world) of Inl e \<Rightarrow> Some e | Inr item \<Rightarrow> None)"

definition pixmap_path :: "path \<Rightarrow> nat \<Rightarrow> path" where
  "pixmap_path temp_dir n = os_path_join temp_dir (''temp_page_'' @ str_nat n @ ''.ppm'')"

definition image_path :: "path \<Rightarrow> converter \<Rightarrow> nat \<Rightarrow> path" where
  "image_path temp_dir self n =
     os_path_join temp_dir (''page_'' @ fmt_04d n @ ''.'' @ lower (image_format self))"

fun image_items :: "path \<Rightarrow> converter \<Rightarrow> nat \<Rightarrow> page list \<Rightarrow> image_item list" where
  "image_items temp_dir self n [] = []"
| "image_items temp_dir self n (pg # ps) =
     (image_path temp_dir self n, (rect_width pg, rect_height pg)) #
     image_items temp_dir self (n + 1) ps"

section \<open>The settings are checked at construction\<close>

lemma init_Inl_iff:
  "(\<exists>e. init d fmt q v = Inl e) \<longleftrightarrow>
     (d \<notin> {72, 150, 300} \<or> upper fmt \<notin> {''JPEG'', ''PNG''} \<or> q < 1 \<or> 100 < q)"
  by (auto simp: init_def Let_def)

lemma init_Inl_configuration: "init d fmt q v = Inl e \<Longrightarrow> e \<in> set configuration_errors"
  by (auto simp: init_def Let_def configuration_errors_def split: if_splits)

lemma init_Inr_fields:
  "init d fmt q v = Inr self \<Longrightarrow>
     self = \<lparr> dpi = d, image_format = upper fmt, jpeg_quality = q, verbose = v \<rparr>"
  by (auto simp: init_def Let_def split: if_splits)

lemma page_loop_error_class:
  "page_loop L self tmp ps n acc w = (Inl e, w') \<Longrightarrow> \<exists>m. e = RuntimeError m"
  by (induction ps arbitrary: n acc w) (auto split: prod.splits sum.splits)

lemma convert_pdf_to_images_error_class:
  "convert_pdf_to_images L self p tmp w = (Inl e, w') \<Longrightarrow> \<exists>m. e = RuntimeError m"
  by (auto simp: convert_pdf_to_images_def Let_def split: sum.splits if_splits prod.splits
           dest: page_loop_error_class)

lemma create_pdf_from_images_error_class:
  "create_pdf_from_images L self xs out w = (Inl e, w') \<Longrightarrow> \<exists>m. e = RuntimeError m"
  by (auto simp: create_pdf_from_images_def split: sum.splits)

lemma convert_body_error_class:
  "convert_body L self p out tmp w = (Inl e, w') \<Longrightarrow> (\<exists>m. e = RuntimeError m) \<or> (\<exists>m. e = OSError m)"
  by (auto simp: convert_body_def os_path_getsize_def split: sum.splits prod.splits option.splits
           dest: convert_pdf_to_images_error_class create_pdf_from_images_error_class)

lemma convert_single_pdf_ValueError:
  "fst (convert_single_pdf L self p out w) = Inl (ValueError m) \<Longrightarrow> m = ''Invalid PDF file: '' @ p"
  by (auto simp: convert_single_pdf_def Let_def split: if_splits prod.splits sum.splits
           dest: convert_body_error_class)

text \<open>
  Claim C6. \<open>__init__\<close> takes the settings only (no file system is in reach, so the check
  comes before any file input or output). It raises if and only if \<open>dpi\<close> is not 72, 150
  or 300, or the upper-cased format is not JPEG or PNG, or the quality is outside 1 to
  100; what it raises is one of the three configuration errors; settings it accepts are
  stored as given (the format upper-cased), and no later conversion with them ends in a
  configuration error.
\<close>

theorem settings_checked_at_construction:
  "((\<exists>e. init d fmt q v = Inl e) \<longleftrightarrow>
      (d \<notin> {72, 150, 300} \<or> upper fmt \<notin> {''JPEG'', ''PNG''} \<or> q < 1 \<or> 100 < q)) \<and>
   (\<forall>e. init d fmt q v = Inl e \<longrightarrow> e \<in> set configuration_errors) \<and>
   (\<forall>self. init d fmt q v = Inr self \<longrightarrow>
      self = \<lparr> dpi = d, image_format = upper fmt, jpeg_quality = q, verbose = v \<rparr> \<and>
      (\<forall>L p out w. fst (convert_single_pdf L self p out w) \<notin> Inl ` set configuration_errors))"
proof (intro conjI allI impI)
  fix self L p out w
  show "fst (convert_single_pdf L self p out w) \<notin> Inl ` set configuration_errors"
  proof
    assume "fst (convert_single_pdf L self p out w) \<in> Inl ` set configuration_errors"
    then obtain m where m: "fst (convert_single_pdf L self p out w) = Inl (ValueError m)"
      and "ValueError m \<in> set configuration_errors"
      by (auto simp: configuration_errors_def)
    from convert_single_pdf_ValueError [OF m] this(2) show False
      by (auto simp: configuration_errors_def)
  qed
qed (auto simp: init_Inl_iff dest: init_Inl_configuration init_Inr_fields)

text \<open>Witness for C6: \<open>dpi = 999\<close> is rejected, \<open>(150, png, 85)\<close> is accepted.\<close>

theorem settings_checked_at_construction_witness:
  "(\<exists>e. init 999 ''JPEG'' 85 False = Inl e) \<and>
   init 150 ''png'' 85 False = Inr \<lparr> dpi = 150, image_format = ''PNG'', jpeg_quality = 85, verbose = False \<rparr>"
proof -
  have a: "upper ''png'' = ''PNG''" by code_simp
  have b: "\<exists>self. init 150 ''png'' 85 False = Inr self" by (simp add: init_def a)
  from settings_checked_at_construction [of 999 "''JPEG''" 85 False]
       settings_checked_at_construction [of 150 "''png''" 85 False] a b
  show ?thesis by auto
qed

section \<open>sanitize\_filename\<close>

lemma replace_char_removes: "c \<noteq> r \<Longrightarrow> c \<notin> set (replace_char c r s)"
  by (auto simp: replace_char_def)

lemma replace_char_keeps_out: "x \<notin> set s \<Longrightarrow> x \<noteq> r \<Longrightarrow> x \<notin> set (replace_char c r s)"
  by (auto simp: replace_char_def)

lemma fold_replace_keeps_out:
  "x \<notin> set s \<Longrightarrow> x \<noteq> r \<Longrightarrow> x \<notin> set (fold (\<lambda>c s. replace_char c r s) cs s)"
  by (induction cs arbitrary: s) (simp_all add: replace_char_keeps_out)

lemma fold_replace_removes:
  "x \<in> set cs \<Longrightarrow> x \<noteq> r \<Longrightarrow> x \<notin> set (fold (\<lambda>c s. replace_char c r s) cs s)"
proof (induction cs arbitrary: s)
  case Nil
  then show ?case by simp
next
  case (Cons c cs)
  show ?case
  proof (cases "x = c")
    case True
    with Cons.prems have "x \<notin> set (replace_char c r s)" by (simp add: replace_char_removes)
    then show ?thesis using Cons.prems by (simp add: fold_replace_keeps_out)
  next
    case False
    with Cons.prems have "x \<in> set cs" by simp
    then show ?thesis using Cons.IH Cons.prems by simp
  qed
qed

lemma underscore_valid: "CHR ''_'' \<notin> set invalid_chars"
  by (simp add: invalid_chars_def)

lemma replaced_no_invalid:
  "set (fold (\<lambda>c s. replace_char c CHR ''_'' s) invalid_chars s) \<inter> set invalid_chars = {}"
  using fold_replace_removes [of _ invalid_chars "CHR ''_''" s] underscore_valid by blast

lemma set_strip: "set (strip cs s) \<subseteq> set s"
  unfolding strip_def by (metis set_dropWhileD set_rev subsetI)

lemma last_dropWhile_nonempty: "dropWhile P xs \<noteq> [] \<Longrightarrow> last (dropWhile P xs) = last xs"
  by (induction xs) auto

lemma hd_strip:
  assumes "strip cs s \<noteq> []"
  shows "hd (strip cs s) \<notin> set cs"
proof -
  let ?P = "\<lambda>c. c \<in> set cs"
  let ?d = "dropWhile ?P s"
  from assms have ne: "dropWhile ?P (rev ?d) \<noteq> []" by (simp add: strip_def)
  have d: "?d \<noteq> []"
  proof
    assume "?d = []"
    with ne show False by simp
  qed
  have "hd (strip cs s) = last (dropWhile ?P (rev ?d))"
    using ne by (simp add: strip_def hd_rev)
  also have "\<dots> = last (rev ?d)" using ne by (rule last_dropWhile_nonempty)
  also have "\<dots> = hd ?d" using d by (simp add: last_rev)
  finally show ?thesis using hd_dropWhile [OF d] by simp
qed

lemma sanitize_filename_unfold:
  "sanitize_filename s =
     (let u = (let t = strip '' .'' (fold (\<lambda>c s. replace_char c CHR ''_'' s) invalid_chars s)
               in if t = [] then ''converted_pdf'' else t)
      in if length u > 200 then take 200 u else u)"
  unfolding sanitize_filename_def Let_def by (rule refl)

text \<open>
  What \<open>sanitize_filename\<close> gives for every input: a name that is not empty, has at most
  200 characters, none of them one of \<open>< > : " / \ | ? *\<close>, and that does not begin
  with a space or a dot.
\<close>

lemma sanitize_filename_holds:
  "sanitize_filename s \<noteq> [] \<and> length (sanitize_filename s) \<le> 200 \<and>
   set (sanitize_filename s) \<inter> set invalid_chars = {} \<and>
   hd (sanitize_filename s) \<notin> set '' .''"
proof -
  define r where "r = fold (\<lambda>c s. replace_char c CHR ''_'' s) invalid_chars s"
  define t where "t = strip '' .'' r"
  define u where "u = (if t = [] then ''converted_pdf'' else t)"
  have u_ne: "u \<noteq> []" by (simp add: u_def)
  have c_set: "set ''converted_pdf'' \<inter> set invalid_chars = {}"
    by (simp add: invalid_chars_def)
  have t_set: "set t \<inter> set invalid_chars = {}"
    using set_strip [of "'' .''" r] replaced_no_invalid [of s] unfolding t_def r_def by blast
  have u_set: "set u \<inter> set invalid_chars = {}"
    using c_set t_set unfolding u_def by (cases "t = []") simp_all
  have c_hd: "hd ''converted_pdf'' \<notin> set '' .''" by simp
  have t_hd: "t \<noteq> [] \<Longrightarrow> hd t \<notin> set '' .''"
    unfolding t_def by (rule hd_strip)
  have u_hd: "hd u \<notin> set '' .''"
    using c_hd t_hd unfolding u_def by (cases "t = []") simp_all
  have eq: "sanitize_filename s = (if length u > 200 then take 200 u else u)"
    unfolding sanitize_filename_unfold u_def t_def r_def Let_def by (rule refl)
  show ?thesis
  proof (cases "length u > 200")
    case True
    then have e: "sanitize_filename s = take 200 u" using eq by simp
    have 1: "take 200 u \<noteq> []" using u_ne by (cases u) simp_all
    have 2: "set (take 200 u) \<subseteq> set u" by (rule set_take_subset)
    have 3: "hd (take 200 u) = hd u" using u_ne by (cases u) simp_all
    have 4: "length (take 200 u) \<le> 200" by simp
    have 5: "set (take 200 u) \<inter> set invalid_chars = {}" using 2 u_set by blast
    show ?thesis unfolding e using 1 3 4 5 u_hd by simp
  next
    case False
    then have e: "sanitize_filename s = u" using eq by simp
    have 4: "length u \<le> 200" using False by simp
    show ?thesis unfolding e using u_ne u_set u_hd 4 by simp
  qed
qed

text \<open>
  Claim C10. The result can end with a space (or a dot): the name is cut to 200
  characters after \<open>strip\<close>, and the cut can end just before a character that
  \<open>strip\<close> had no reason to remove. The input here is 199 times \<open>a\<close>, a space and \<open>b\<close>
  (201 characters); the result is its first 200 characters, ending with the space.
\<close>

theorem sanitize_filename_ends_with_space:
  "sanitize_filename (replicate 199 CHR ''a'' @ '' b'') = replicate 199 CHR ''a'' @ '' '' \<and>
   last (sanitize_filename (replicate 199 CHR ''a'' @ '' b'')) = CHR '' '' \<and>
   length (replicate 199 CHR ''a'' @ '' b'') = 201"
  by code_simp

section \<open>Validation, encrypted documents, and the cleanup of the output\<close>


lemma convert_single_pdf_failure:
  assumes "validate_pdf L w p"
      and "convert_body L self p (chosen_output_path L self w p out) (mkdtemp L)
             (w\<lparr>scratch := Map.empty\<rparr>) = (Inl e, w1)"
  shows "convert_single_pdf L self p out w =
           (Inl e, (if os_path_exists w1 (chosen_output_path L self w p out)
                    then os_remove (chosen_output_path L self w p out) w1 else w1)
                   \<lparr>scratch := Map.empty\<rparr>)"
  using assms by (simp add: convert_single_pdf_def chosen_output_path_def Let_def)

lemma convert_single_pdf_success:
  assumes "validate_pdf L w p"
      and "convert_body L self p (chosen_output_path L self w p out) (mkdtemp L)
             (w\<lparr>scratch := Map.empty\<rparr>) = (Inr r, w1)"
  shows "convert_single_pdf L self p out w = (Inr r, w1\<lparr>scratch := Map.empty\<rparr>)"
  using assms by (simp add: convert_single_pdf_def chosen_output_path_def Let_def)


text \<open>
  Claim C4. A file of zero bytes, and a file whose content does not begin with the five
  bytes \<open>%PDF-\<close> and for which \<open>mimetypes\<close> does not say \<open>application/pdf\<close>, is not
  valid for \<open>validate_pdf\<close>; \<open>convert_single_pdf\<close> then raises the error of line 194 and
  leaves the state as it was: no document is opened and no page is rendered.
\<close>

theorem non_pdf_rejected:
  assumes "files w p = Some data"
      and "data = [] \<or> (\<not> startswith data pdf_magic \<and> guess_type L p \<noteq> Some ''application/pdf'')"
  shows "\<not> validate_pdf L w p \<and>
         convert_single_pdf L self p out w = (Inl (ValueError (''Invalid PDF file: '' @ p)), w)"
proof -
  have v: "\<not> validate_pdf L w p"
    using assms
    by (auto simp: validate_pdf_def os_path_getsize_def startswith_def pdf_magic_def)
  then show ?thesis by (simp add: convert_single_pdf_def)
qed

text \<open>Witness for C4: an empty file and a file of 120 letters, both named \<open>.pdf\<close>.\<close>

theorem non_pdf_rejected_witness:
  "\<not> validate_pdf demo_lib demo_world ''empty.pdf'' \<and>
   \<not> validate_pdf demo_lib demo_world ''notes.pdf'' \<and>
   fst (convert_single_pdf demo_lib demo_converter ''notes.pdf'' None demo_world) =
     Inl (ValueError ''Invalid PDF file: notes.pdf'')"
proof -
  have 1: "files demo_world ''empty.pdf'' = Some []" by (simp add: demo_world_def)
  have 2: "files demo_world ''notes.pdf'' = Some text_file" by (simp add: demo_world_def)
  have 3: "\<not> startswith text_file pdf_magic" by code_simp
  have 4: "guess_type demo_lib ''notes.pdf'' \<noteq> Some ''application/pdf''" by (simp add: demo_lib_def)
  from non_pdf_rejected [OF 1, of demo_lib demo_converter None]
       non_pdf_rejected [OF 2, of demo_lib demo_converter None] 3 4
  show ?thesis by simp
qed



text \<open>
  Claim C9. When the output path is supplied and names an existing file, and the
  conversion of a valid input fails (in the rasterizer, the reassembler or after), the
  handler of lines 226 to 230 removes that file: it is gone when the error reaches the
  caller.
\<close>

theorem failure_deletes_existing_output:
  assumes "validate_pdf L w input_path"
      and "files w output_path = Some old"
      and "convert_single_pdf L self input_path (Some output_path) w = (Inl e, w')"
  shows "files w' output_path = None"
proof -
  obtain r w1 where b: "convert_body L self input_path output_path (mkdtemp L)
                          (w\<lparr>scratch := Map.empty\<rparr>) = (r, w1)"
    by (cases "convert_body L self input_path output_path (mkdtemp L) (w\<lparr>scratch := Map.empty\<rparr>)")
  have c: "chosen_output_path L self w input_path (Some output_path) = output_path"
    by (simp add: chosen_output_path_def)
  show ?thesis
  proof (cases r)
    case (Inl e')
    from convert_single_pdf_failure [OF assms(1), of self "Some output_path" e' w1] b Inl c assms(3)
    show ?thesis by (auto simp: os_path_exists_def os_remove_def split: if_splits)
  next
    case (Inr q)
    from convert_single_pdf_success [OF assms(1), of self "Some output_path" q w1] b Inr c assms(3)
    show ?thesis by simp
  qed
qed

text \<open>
  Witness for C9: the second page of \<open>bad.pdf\<close> does not render, and \<open>report.pdf\<close>,
  given as the output path, existed before the call.
\<close>

theorem failure_deletes_existing_output_witness:
  "files demo_world ''report.pdf'' = Some text_file \<and>
   fst (convert_single_pdf demo_lib demo_converter ''bad.pdf'' (Some ''report.pdf'') demo_world) =
     Inl (RuntimeError ''Failed to process page 2: cannot render'') \<and>
   files (snd (convert_single_pdf demo_lib demo_converter ''bad.pdf'' (Some ''report.pdf'') demo_world))
     ''report.pdf'' = None"
proof -
  let ?r = "convert_single_pdf demo_lib demo_converter ''bad.pdf'' (Some ''report.pdf'') demo_world"
  have 1: "validate_pdf demo_lib demo_world ''bad.pdf''" by code_simp
  have 2: "files demo_world ''report.pdf'' = Some text_file" by (simp add: demo_world_def)
  have 3: "fst ?r = Inl (RuntimeError ''Failed to process page 2: cannot render'')" by code_simp
  then have 4: "?r = (Inl (RuntimeError ''Failed to process page 2: cannot render''), snd ?r)"
    by (metis prod.collapse)
  from failure_deletes_existing_output [OF 1 2 4] 2 3 show ?thesis by simp
qed

section \<open>The derived output name\<close>

lemma conflict_loop_free:
  "\<not> os_path_exists w output_path \<Longrightarrow>
     conflict_loop L w inp base suffix output_path c = output_path"
  by (subst conflict_loop.simps) simp

lemma conflict_loop_last:
  "os_path_exists w output_path \<Longrightarrow> 1000 \<le> c \<Longrightarrow>
     conflict_loop L w inp base suffix output_path c =
       path_sibling L inp (base @ suffix @ ''_'' @ str_nat c @ ''.pdf'')"
  by (subst conflict_loop.simps) (simp add: Let_def)

lemma conflict_loop_next:
  "os_path_exists w output_path \<Longrightarrow> c < 1000 \<Longrightarrow>
     conflict_loop L w inp base suffix output_path c =
       conflict_loop L w inp base suffix
         (path_sibling L inp (base @ suffix @ ''_'' @ str_nat c @ ''.pdf'')) (c + 1)"
  by (subst conflict_loop.simps) (simp add: Let_def)

lemma conflict_loop_result:
  assumes "1 \<le> c" and "c \<le> 1000"
      and "output_path = numbered L inp base suffix (c - 1)"
  shows "\<exists>k. c - 1 \<le> k \<and> k \<le> 1000 \<and>
           conflict_loop L w inp base suffix output_path c = numbered L inp base suffix k \<and>
           (\<forall>j. c - 1 \<le> j \<and> j < k \<longrightarrow> os_path_exists w (numbered L inp base suffix j)) \<and>
           (k < 1000 \<longrightarrow> \<not> os_path_exists w (numbered L inp base suffix k))"
  using assms
proof (induction n \<equiv> "1000 - c" arbitrary: c output_path)
  case 0
  let ?N = "numbered L inp base suffix"
  from "0.hyps" "0.prems"(2) have c: "c = 1000" by arith
  have free: ?case if no: "\<not> os_path_exists w output_path"
  proof (intro exI [of _ "c - 1"] conjI allI impI)
    show "conflict_loop L w inp base suffix output_path c = ?N (c - 1)"
      using conflict_loop_free [OF no, of L inp base suffix c] "0.prems"(3) by (simp only:)
    show "\<not> os_path_exists w (?N (c - 1))" using no "0.prems"(3) by (simp only: not_False_eq_True)
    show "c - 1 \<le> 1000" using c by arith
    show "c - 1 \<le> c - 1" by (rule order_refl)
    fix j assume "c - 1 \<le> j \<and> j < c - 1"
    then have False by arith
    then show "os_path_exists w (?N j)" by (rule FalseE)
  qed
  have taken: ?case if ex: "os_path_exists w output_path"
  proof (intro exI [of _ c] conjI allI impI)
    have n: "path_sibling L inp (base @ suffix @ ''_'' @ str_nat c @ ''.pdf'') = ?N c"
      using "0.prems"(1) by (simp add: numbered_def)
    have ge: "1000 \<le> c" using c by arith
    show "conflict_loop L w inp base suffix output_path c = ?N c"
      using conflict_loop_last [OF ex ge, of L inp base suffix] n by (simp only:)
    show "c - 1 \<le> c" by arith
    show "c \<le> 1000" by (rule "0.prems"(2))
    { fix j assume "c - 1 \<le> j \<and> j < c"
      then have "j = c - 1" by arith
      then show "os_path_exists w (?N j)" using ex "0.prems"(3) by (simp only:) }
    { assume "c < 1000"
      then have False using c by arith
      then show "\<not> os_path_exists w (?N c)" by (rule FalseE) }
  qed
  show ?case using free taken by (cases "os_path_exists w output_path")
next
  case (Suc n)
  let ?N = "numbered L inp base suffix"
  from Suc.hyps(2) have lt: "c < 1000" by arith
  have free: ?case if no: "\<not> os_path_exists w output_path"
  proof (intro exI [of _ "c - 1"] conjI allI impI)
    show "conflict_loop L w inp base suffix output_path c = ?N (c - 1)"
      using conflict_loop_free [OF no, of L inp base suffix c] Suc.prems(3) by (simp only:)
    show "\<not> os_path_exists w (?N (c - 1))" using no Suc.prems(3) by (simp only: not_False_eq_True)
    show "c - 1 \<le> 1000" using lt by arith
    show "c - 1 \<le> c - 1" by (rule order_refl)
    fix j assume "c - 1 \<le> j \<and> j < c - 1"
    then have False by arith
    then show "os_path_exists w (?N j)" by (rule FalseE)
  qed
  have taken: ?case if ex: "os_path_exists w output_path"
  proof -
    have n: "path_sibling L inp (base @ suffix @ ''_'' @ str_nat c @ ''.pdf'') = ?N c"
      using Suc.prems(1) by (simp add: numbered_def)
    have step: "conflict_loop L w inp base suffix output_path c =
                conflict_loop L w inp base suffix (?N c) (c + 1)"
      using conflict_loop_next [OF ex lt, of L inp base suffix] n by (simp only:)
    have h1: "n = 1000 - (c + 1)" using Suc.hyps(2) by arith
    have h2: "1 \<le> c + 1" by arith
    have h3: "c + 1 \<le> 1000" using lt by arith
    have h4: "?N c = ?N (c + 1 - 1)" by simp
    from Suc.hyps(1) [OF h1 h2 h3 h4]
    obtain k where k: "c + 1 - 1 \<le> k" "k \<le> 1000"
        "conflict_loop L w inp base suffix (?N c) (c + 1) = ?N k"
        "\<forall>j. c + 1 - 1 \<le> j \<and> j < k \<longrightarrow> os_path_exists w (?N j)"
        "k < 1000 \<longrightarrow> \<not> os_path_exists w (?N k)"
      by (elim exE conjE)
    show ?thesis
    proof (intro exI [of _ k] conjI allI impI)
      show "c - 1 \<le> k" using k(1) by arith
      show "k \<le> 1000" by (rule k(2))
      show "conflict_loop L w inp base suffix output_path c = ?N k"
        using step k(3) by (simp only:)
      { fix j assume j: "c - 1 \<le> j \<and> j < k"
        show "os_path_exists w (?N j)"
        proof (cases "j = c - 1")
          case True
          then show ?thesis using ex Suc.prems(3) by (simp only:)
        next
          case False
          then have "c + 1 - 1 \<le> j \<and> j < k" using j by arith
          then show ?thesis using k(4) by (elim allE [of _ j] impE)
        qed }
      { assume "k < 1000"
        then show "\<not> os_path_exists w (?N k)" using k(5) by (elim impE) }
    qed
  qed
  show ?case using free taken by (cases "os_path_exists w output_path")
qed

lemma get_output_filename_result:
  "\<exists>k\<le>1000. get_output_filename L w input_path fmt d = candidate L input_path d k \<and>
      (\<forall>j<k. os_path_exists w (candidate L input_path d j)) \<and>
      (k < 1000 \<longrightarrow> \<not> os_path_exists w (candidate L input_path d k))"
proof -
  let ?base = "path_stem L input_path" and ?suffix = "''_image_'' @ str_int d @ ''dpi''"
  have start: "path_sibling L input_path (?base @ ?suffix @ ''.pdf'') =
               numbered L input_path ?base ?suffix (1 - 1)"
    by (simp add: numbered_def)
  have g: "get_output_filename L w input_path fmt d =
           conflict_loop L w input_path ?base ?suffix (numbered L input_path ?base ?suffix (1 - 1)) 1"
    unfolding get_output_filename_def Let_def start by (rule refl)
  from conflict_loop_result [of 1 _ L input_path ?base ?suffix w, OF _ _ refl]
  obtain k where "k \<le> 1000"
     "conflict_loop L w input_path ?base ?suffix (numbered L input_path ?base ?suffix (1 - 1)) 1 =
        numbered L input_path ?base ?suffix k"
     "\<forall>j. 1 - 1 \<le> j \<and> j < k \<longrightarrow> os_path_exists w (numbered L input_path ?base ?suffix j)"
     "k < 1000 \<longrightarrow> \<not> os_path_exists w (numbered L input_path ?base ?suffix k)"
    by auto
  then show ?thesis unfolding g candidate_def by (intro exI [of _ k]) auto
qed

text \<open>
  Claim C7 (as amended). For every input path and every \<open>dpi\<close>, the derived name is one
  of the 1001 names \<open>{stem}_image_{dpi}dpi.pdf\<close>, \<open>{stem}_image_{dpi}dpi_1.pdf\<close>, ...,
  \<open>{stem}_image_{dpi}dpi_1000.pdf\<close> in the directory of the input: the first of them,
  in this order, that does not exist among the first 1000; and the last one, which is
  not looked up, when the first 1000 all exist.
\<close>

theorem output_name_first_free:
  "\<exists>k\<le>1000. get_output_filename L w input_path fmt d = candidate L input_path d k \<and>
      (\<forall>j<k. os_path_exists w (candidate L input_path d j)) \<and>
      (k < 1000 \<longrightarrow> \<not> os_path_exists w (candidate L input_path d k))"
  by (rule get_output_filename_result)

text \<open>
  Witness for C7: \<open>notes_image_150dpi.pdf\<close> does not exist and is the name derived for
  \<open>notes.pdf\<close>; \<open>bad_image_150dpi.pdf\<close> exists, and the name derived for \<open>bad.pdf\<close>
  has the suffix \<open>_1\<close>.
\<close>

theorem output_name_first_free_witness:
  "get_output_filename demo_lib demo_world ''notes.pdf'' ''jpeg'' 150 = ''notes_image_150dpi.pdf'' \<and>
   os_path_exists demo_world ''bad_image_150dpi.pdf'' \<and>
   get_output_filename demo_lib demo_world ''bad.pdf'' ''jpeg'' 150 = ''bad_image_150dpi_1.pdf''"
proof -
  have n0: "\<not> os_path_exists demo_world (candidate demo_lib ''notes.pdf'' 150 0)" by code_simp
  have c0: "candidate demo_lib ''notes.pdf'' 150 0 = ''notes_image_150dpi.pdf''" by code_simp
  have b0: "os_path_exists demo_world ''bad_image_150dpi.pdf''" by code_simp
  have d0: "candidate demo_lib ''bad.pdf'' 150 0 = ''bad_image_150dpi.pdf''" by code_simp
  have d1: "candidate demo_lib ''bad.pdf'' 150 1 = ''bad_image_150dpi_1.pdf''" by code_simp
  have b1: "\<not> os_path_exists demo_world (candidate demo_lib ''bad.pdf'' 150 1)" by code_simp
  from output_name_first_free [of demo_lib demo_world "''notes.pdf''" "''jpeg''" 150]
  obtain k where k: "get_output_filename demo_lib demo_world ''notes.pdf'' ''jpeg'' 150 =
                       candidate demo_lib ''notes.pdf'' 150 k"
     "\<forall>j<k. os_path_exists demo_world (candidate demo_lib ''notes.pdf'' 150 j)"
    by blast
  have "k = 0"
  proof (rule ccontr)
    assume "k \<noteq> 0"
    then have "0 < k" by simp
    with k(2) n0 show False by blast
  qed
  with k(1) c0 have A: "get_output_filename demo_lib demo_world ''notes.pdf'' ''jpeg'' 150 =
                          ''notes_image_150dpi.pdf''" by simp
  from output_name_first_free [of demo_lib demo_world "''bad.pdf''" "''jpeg''" 150]
  obtain m where m: "m \<le> 1000"
     "get_output_filename demo_lib demo_world ''bad.pdf'' ''jpeg'' 150 =
        candidate demo_lib ''bad.pdf'' 150 m"
     "\<forall>j<m. os_path_exists demo_world (candidate demo_lib ''bad.pdf'' 150 j)"
     "m < 1000 \<longrightarrow> \<not> os_path_exists demo_world (candidate demo_lib ''bad.pdf'' 150 m)"
    by blast
  have "m = 1"
  proof (rule ccontr)
    assume ne: "m \<noteq> 1"
    show False
    proof (cases "m = 0")
      case True
      with m(4) b0 d0 show False by simp
    next
      case False
      with ne have "1 < m" by simp
      with m(3) b1 show False by blast
    qed
  qed
  with m(2) d1 have B: "get_output_filename demo_lib demo_world ''bad.pdf'' ''jpeg'' 150 =
                          ''bad_image_150dpi_1.pdf''" by simp
  show ?thesis using A B b0 by simp
qed

text \<open>
  Counterexample to C7 as stated: in a directory where all 1001 names exist, the derived
  name is the one with the suffix \<open>_1000\<close>, an existing file, which the conversion then
  writes to.
\<close>

theorem output_name_can_exist:
  "get_output_filename demo_lib full_world ''notes.pdf'' ''jpeg'' 150 = ''notes_image_150dpi_1000.pdf'' \<and>
   os_path_exists full_world (get_output_filename demo_lib full_world ''notes.pdf'' ''jpeg'' 150)"
proof -
  from get_output_filename_result [of demo_lib full_world "''notes.pdf''" "''jpeg''" 150]
  obtain k where k: "k \<le> 1000"
     "get_output_filename demo_lib full_world ''notes.pdf'' ''jpeg'' 150 = candidate demo_lib ''notes.pdf'' 150 k"
     "k < 1000 \<longrightarrow> \<not> os_path_exists full_world (candidate demo_lib ''notes.pdf'' 150 k)"
    by blast
  have all: "\<And>p. os_path_exists full_world p" by (simp add: os_path_exists_def full_world_def)
  from k(3) all have "\<not> k < 1000" by blast
  with k(1) have "k = 1000" by arith
  moreover have "candidate demo_lib ''notes.pdf'' 150 1000 = ''notes_image_150dpi_1000.pdf''"
    by code_simp
  ultimately show ?thesis using k(2) all by simp
qed

section \<open>What a conversion leaves unchanged\<close>







section \<open>Batch mode\<close>









end
